theory Spec2Isabelle
  imports Complex_Main "HOL-Library.Sublist"
begin

section \<open>Python values used by the query builder and the client\<close>

text \<open>
  A Python \<open>str\<close> is modelled as a \<open>string\<close>: a list of 8-bit characters, each read as
  a code point below 256. \<open>str.strip()\<close> without argument removes leading and trailing
  white space; below 256 the white-space code points of CPython are
  9-13, 28-32, 133 and 160.
\<close>

definition py_isspace :: "char \<Rightarrow> bool" where
  "py_isspace c = ((of_char c :: nat) \<in> set [9, 10, 11, 12, 13, 28, 29, 30, 31, 32, 133, 160])"

definition strip :: "string \<Rightarrow> string" where
  "strip s = rev (dropWhile py_isspace (rev (dropWhile py_isspace s)))"

text \<open>\<open>sep.join(xs)\<close>.\<close>

fun join :: "string \<Rightarrow> string list \<Rightarrow> string" where
  "join sep [] = []"
| "join sep [x] = x"
| "join sep (x # y # ys) = x @ sep @ join sep (y # ys)"

text \<open>
  Truthiness of an \<open>Optional[str]\<close>: \<open>None\<close> and the empty string are falsy.
  \<open>xs or []\<close> on an optional sequence.
\<close>

fun truthy :: "string option \<Rightarrow> bool" where
  "truthy None = False"
| "truthy (Some s) = (s \<noteq> [])"

text \<open>The text of an optional string inside an f-string or as a \<open>str\<close> argument.\<close>

fun py_str :: "string option \<Rightarrow> string" where
  "py_str None = ''None''"
| "py_str (Some s) = s"

fun or_empty :: "'a list option \<Rightarrow> 'a list" where
  "or_empty None = []"
| "or_empty (Some xs) = xs"

text \<open>
  A Python \<open>float\<close>. Only comparison and formatting are applied to the coordinates of a
  bounding box, never arithmetic, so a float is its value: a finite number, the negative
  zero (equal to zero in comparisons, printed differently), an infinity, or not-a-number.
\<close>

datatype pyfloat = Finite real | NegZero | PosInf | NegInf | NaN

type_synonym BBox = "pyfloat \<times> pyfloat \<times> pyfloat \<times> pyfloat"

text \<open>
  An exception is its class, given with its base classes in method resolution order, and
  the text \<open>str(exc)\<close> gives. \<open>isinstance\<close> decides which \<open>except\<close> clause
  catches it. The source raises \<open>ValueError\<close> in the query builder and its own
  \<open>PostpassClientError(RuntimeError)\<close> in the client; the library raises others.
\<close>

datatype py_exc = Exc (mro: "string list") (exc_str: string)

definition isinstance :: "py_exc \<Rightarrow> string \<Rightarrow> bool" where
  "isinstance e cls = (cls \<in> set (mro e))"

definition ValueError :: "string \<Rightarrow> py_exc" where
  "ValueError msg = Exc [''ValueError'', ''Exception'', ''BaseException'', ''object''] msg"

definition PostpassClientError :: "string \<Rightarrow> py_exc" where
  "PostpassClientError msg =
     Exc [''PostpassClientError'', ''RuntimeError'', ''Exception'', ''BaseException'', ''object''] msg"

text \<open>A value returned by \<open>json.loads\<close>; a \<open>dict\<close> is a JSON object.\<close>

datatype json =
    JNull
  | JBool bool
  | JInt int
  | JFloat pyfloat
  | JString string
  | JArray "json list"
  | JObject "(string \<times> json) list"

fun is_dict :: "json \<Rightarrow> bool" where
  "is_dict (JObject kvs) = True"
| "is_dict v = False"

section \<open>postpass/query_builder.py\<close>

text \<open>
  An f-string formats a float coordinate with the runtime's \<open>float.__format__\<close>, the
  shortest text that reads back as the same float. It is not code of the repository; every
  function that formats a coordinate takes it as its first argument \<open>fmt\<close>.
\<close>

definition quoted :: "string \<Rightarrow> string" where
  "quoted s = [CHR 0x27] @ s @ [CHR 0x27]"

definition projection :: "string \<Rightarrow> string" where
  "projection col = ''tags->>'' @ quoted col @ '' as '' @ [CHR 0x22] @ col @ [CHR 0x22]"

fun column_loop :: "string list \<Rightarrow> string list \<Rightarrow> string list" where
  "column_loop select_cols [] = select_cols"
| "column_loop select_cols (col # columns) =
     (let col' = strip col in
      if col' = [] \<or> col' = ''*'' then column_loop select_cols columns
      else column_loop (select_cols @ [projection col']) columns)"

definition create_column_filter :: "string list \<Rightarrow> bool \<Rightarrow> string" where
  "create_column_filter columns use_centroid =
     (let select_cols = column_loop [''osm_id'', ''tags''] columns;
          geom_expr = (if use_centroid then ''ST_Centroid(geom) as geom'' else ''geom'')
      in join '', '' (select_cols @ [geom_expr]))"

definition create_bbox_filter :: "(pyfloat \<Rightarrow> string) \<Rightarrow> BBox \<Rightarrow> string \<Rightarrow> string" where
  "create_bbox_filter fmt bbox geom_col =
     (case bbox of (min_lon, min_lat, max_lon, max_lat) \<Rightarrow>
        geom_col @ '' && '' @
        ''ST_SetSRID('' @
        ''ST_MakeBox2D('' @
        ''ST_MakePoint('' @ fmt min_lon @ '', '' @ fmt min_lat @ ''),'' @
        ''ST_MakePoint('' @ fmt max_lon @ '', '' @ fmt max_lat @ '')'' @
        ''), 4326)'')"

text \<open>
  The values of a tag filter are a sequence that may be \<open>None\<close> and whose entries may be
  \<open>None\<close>: \<open>cleaned\<close> keeps the entries that are neither \<open>None\<close> nor empty.
\<close>

fun cleaned :: "string option list \<Rightarrow> string list" where
  "cleaned [] = []"
| "cleaned (None # vs) = cleaned vs"
| "cleaned (Some v # vs) = (if v \<noteq> [] then v # cleaned vs else cleaned vs)"

definition wildcard_dropped :: "string list \<Rightarrow> string list" where
  "wildcard_dropped cl = (if length cl = 1 \<and> cl ! 0 = ''*'' then [] else cl)"

definition presence_predicate :: "string \<Rightarrow> string" where
  "presence_predicate key = ''tags ? '' @ quoted (strip key)"

definition equality_predicate :: "string \<Rightarrow> string \<Rightarrow> string" where
  "equality_predicate key v = ''tags->>'' @ quoted (strip key) @ '' = '' @ quoted (strip v)"

definition membership_predicate :: "string \<Rightarrow> string list \<Rightarrow> string" where
  "membership_predicate key vs =
     ''tags->>'' @ quoted (strip key) @ '' IN ('' @ join '', '' (map (\<lambda>v. quoted (strip v)) vs) @ '')''"

definition create_tag_filter :: "string \<Rightarrow> string option list option \<Rightarrow> string" where
  "create_tag_filter key vals =
     (let cl = wildcard_dropped (cleaned (or_empty vals)) in
      if cl = [] then presence_predicate key
      else if length cl = 1 then equality_predicate key (cl ! 0)
      else membership_predicate key cl)"

definition build_simple_query ::
  "(pyfloat \<Rightarrow> string) \<Rightarrow> string option \<Rightarrow> BBox \<Rightarrow> string list option \<Rightarrow> string option \<Rightarrow>
   string option list option \<Rightarrow> bool \<Rightarrow> py_exc + string" where
  "build_simple_query fmt table bbox columns tag_key tag_values use_centroid =
     (if \<not> truthy table then Inl (ValueError ''table is required for Postpass query.'')
      else
        let select_sql = create_column_filter (or_empty columns) use_centroid;
            where_clauses = [create_bbox_filter fmt bbox ''geom''] @
              (if truthy tag_key
               then [create_tag_filter (py_str tag_key) (Some (or_empty tag_values))]
               else []);
            where_sql = join '' AND '' where_clauses
        in Inr (''SELECT '' @ select_sql @ '' FROM '' @ py_str table @ '' WHERE '' @ where_sql))"

text \<open>
  The number of places at which a text occurs in another, used to count the
  \<open>WHERE\<close> keywords of a query.
\<close>

fun occurrences :: "string \<Rightarrow> string \<Rightarrow> nat" where
  "occurrences pat [] = (if pat = [] then 1 else 0)"
| "occurrences pat (c # cs) = (if prefix pat (c # cs) then 1 else 0) + occurrences pat cs"

section \<open>postpass/client.py\<close>

text \<open>
  The client reaches the network and the JSON parser through the Python library, which is
  not code of the repository. The library calls of \<open>run_sql\<close> are the fields of a
  \<open>runtime\<close>; each returns its value or the exception it raises:
  \<^item> \<open>urlencode\<close>: \<open>urlencode({"data": sql}).encode("utf-8")\<close>, the body of the POST;
  \<^item> \<open>Request\<close>: the constructor \<open>Request(url, data=body, method="POST")\<close>, which raises
    \<open>ValueError\<close> for a URL without a scheme;
  \<^item> \<open>urlopen_read\<close>: \<open>urlopen(request, timeout=t)\<close> followed by \<open>resp.read()\<close> and the
    exit of the \<open>with\<close> block;
  \<^item> \<open>decode_utf8\<close>: \<open>raw.decode("utf-8")\<close>;
  \<^item> \<open>json_loads\<close>: \<open>json.loads\<close>.
\<close>

record request =
  full_url :: string
  data :: string
  http_method :: string

record runtime =
  urlencode :: "(string \<times> string) list \<Rightarrow> string"
  Request :: "string \<Rightarrow> string \<Rightarrow> string \<Rightarrow> py_exc + request"
  urlopen_read :: "request \<Rightarrow> int \<Rightarrow> py_exc + string"
  decode_utf8 :: "string \<Rightarrow> py_exc + string"
  json_loads :: "string \<Rightarrow> py_exc + json"

definition DEFAULT_POSTPASS_ENDPOINT :: string where
  "DEFAULT_POSTPASS_ENDPOINT = ''https://postpass.geofabrik.de/api/0.2/interpreter''"

record PostpassClient =
  endpoint :: string
  timeout :: int

text \<open>\<open>PostpassClient(endpoint=url)\<close>, with the default timeout of the constructor.\<close>

definition new_client :: "string \<Rightarrow> PostpassClient" where
  "new_client url = \<lparr>endpoint = url, timeout = 60\<rparr>"

text \<open>\<open>json.loads(raw.decode("utf-8"))\<close>, the body of the second \<open>try\<close>.\<close>

definition parse_payload :: "runtime \<Rightarrow> string \<Rightarrow> py_exc + json" where
  "parse_payload rt raw =
     (case decode_utf8 rt raw of
        Inl exc \<Rightarrow> Inl exc
      | Inr text \<Rightarrow> json_loads rt text)"

text \<open>
  \<open>run_sql\<close> returns the parsed payload or the exception that leaves it, together with
  the list of the requests it handed to \<open>urlopen\<close>. \<open>except Exception\<close> catches the
  instances of \<open>Exception\<close> only; any other exception leaves the function as it is.
\<close>

definition run_sql :: "runtime \<Rightarrow> PostpassClient \<Rightarrow> string \<Rightarrow> (py_exc + json) \<times> request list" where
  "run_sql rt self sql =
     (if endpoint self = [] then (Inl (PostpassClientError ''PostPass endpoint is required.''), [])
      else if sql = [] \<or> strip sql = [] then (Inl (PostpassClientError ''SQL query is required.''), [])
      else
        let body = urlencode rt [(''data'', sql)] in
        case Request rt (endpoint self) body ''POST'' of
          Inl exc \<Rightarrow> (Inl exc, [])
        | Inr req \<Rightarrow>
            (case urlopen_read rt req (timeout self) of
               Inl exc \<Rightarrow>
                 (if isinstance exc ''Exception''
                  then Inl (PostpassClientError (''HTTP request failed: '' @ exc_str exc))
                  else Inl exc, [req])
             | Inr raw \<Rightarrow>
                 (case parse_payload rt raw of
                    Inl exc \<Rightarrow>
                      (if isinstance exc ''Exception''
                       then Inl (PostpassClientError ''PostPass response was not valid JSON.'')
                       else Inl exc, [req])
                  | Inr payload \<Rightarrow>
                      (if \<not> is_dict payload
                       then Inl (PostpassClientError ''PostPass response must be a GeoJSON object.'')
                       else Inr payload, [req]))))"

definition extract_buildings ::
  "(pyfloat \<Rightarrow> string) \<Rightarrow> runtime \<Rightarrow> PostpassClient \<Rightarrow> BBox \<Rightarrow> (py_exc + json) \<times> request list" where
  "extract_buildings fmt rt self bbox =
     (case build_simple_query fmt (Some ''postpass_pointpolygon'') bbox (Some [])
             (Some ''building'') (Some [Some ''yes'']) False of
        Inl exc \<Rightarrow> (Inl exc, [])
      | Inr sql \<Rightarrow> run_sql rt self sql)"

section \<open>dialog.py\<close>

text \<open>
  Comparison of floats: not-a-number compares false with everything, the negative zero
  equals zero.
\<close>

fun float_rank :: "pyfloat \<Rightarrow> (int \<times> real) option" where
  "float_rank NaN = None"
| "float_rank NegInf = Some (-1, 0)"
| "float_rank (Finite x) = Some (0, x)"
| "float_rank NegZero = Some (0, 0)"
| "float_rank PosInf = Some (1, 0)"

definition float_ge :: "pyfloat \<Rightarrow> pyfloat \<Rightarrow> bool" where
  "float_ge a b =
     (case (float_rank a, float_rank b) of
        (Some (i, x), Some (j, y)) \<Rightarrow> j < i \<or> (j = i \<and> y \<le> x)
      | _ \<Rightarrow> False)"

text \<open>\<open>text.split(",")\<close>.\<close>

fun split_on :: "char \<Rightarrow> string \<Rightarrow> string list" where
  "split_on sep [] = [[]]"
| "split_on sep (c # cs) =
     (if c = sep then [] # split_on sep cs
      else (case split_on sep cs of
              [] \<Rightarrow> [[c]]
            | p # ps \<Rightarrow> (c # p) # ps))"

text \<open>
  \<open>_parse_bbox\<close> returns the box, or \<open>None\<close> after it has shown a message: the model
  returns the message. The builtin \<open>float\<close> is the argument \<open>to_float\<close>, with
  \<open>None\<close> where it raises \<open>ValueError\<close>.
\<close>

definition parse_bbox :: "(string \<Rightarrow> pyfloat option) \<Rightarrow> string \<Rightarrow> string + BBox" where
  "parse_bbox to_float bbox_text =
     (let text = strip bbox_text in
      if text = []
      then Inl ''Please enter a bounding box in the form min_lon,min_lat,max_lon,max_lat.''
      else
        let parts = map strip (split_on CHR '','' text) in
        if length parts \<noteq> 4
        then Inl ''Bounding box must have exactly four comma-separated values.''
        else
          (case map to_float parts of
             [Some min_lon, Some min_lat, Some max_lon, Some max_lat] \<Rightarrow>
               if float_ge min_lon max_lon \<or> float_ge min_lat max_lat
               then Inl ''Bounding box min values must be less than max values.''
               else Inr (min_lon, min_lat, max_lon, max_lat)
           | _ \<Rightarrow> Inl ''Bounding box values must be numeric.''))"

text \<open>
  The texts of the dialog's widgets when the button is clicked, and what the click
  handler has done when it reaches the point where the response is written to a file:
  shown an error message, let an exception escape, or fetched a response.
\<close>

record dialog_fields =
  endpointEdit :: string
  geomCombo :: "string option"
  bboxEdit :: string
  tagKeyEdit :: string
  tagValueEdit :: string

datatype click_outcome = ErrorShown string | Uncaught py_exc | Fetched json

definition or_none :: "string \<Rightarrow> string option" where
  "or_none s = (if s = [] then None else Some s)"

definition on_run_clicked ::
  "(pyfloat \<Rightarrow> string) \<Rightarrow> runtime \<Rightarrow> (string \<Rightarrow> pyfloat option) \<Rightarrow> dialog_fields \<Rightarrow>
   click_outcome \<times> request list" where
  "on_run_clicked fmt rt to_float d =
     (case parse_bbox to_float (bboxEdit d) of
        Inl message \<Rightarrow> (ErrorShown message, [])
      | Inr bbox \<Rightarrow>
          let table_name = geomCombo d;
              tag_key = or_none (strip (tagKeyEdit d));
              tag_value = or_none (strip (tagValueEdit d));
              url = strip (endpointEdit d)
          in
          if url = [] then (ErrorShown ''Please enter a Postpass endpoint URL.'', [])
          else
            let client = new_client url;
                (result, posts) =
                  (if \<not> truthy tag_key then extract_buildings fmt rt client bbox
                   else
                     (case build_simple_query fmt table_name bbox (Some []) tag_key
                             (Some (if truthy tag_value then [tag_value] else [])) False of
                        Inl exc \<Rightarrow> (Inl exc, [])
                      | Inr sql \<Rightarrow> run_sql rt client sql))
            in
            (case result of
               Inl exc \<Rightarrow>
                 if isinstance exc ''ValueError'' \<or> isinstance exc ''PostpassClientError''
                 then ErrorShown (exc_str exc)
                 else Uncaught exc
             | Inr geojson \<Rightarrow> Fetched geojson, posts))"

section \<open>Stand-ins for the library in examples\<close>

text \<open>
  Python's text for the floats of the documented example, \<open>-1.0\<close> and \<open>1.0\<close>; the
  table has no other float, and gives \<open>0.0\<close> for all of them.
\<close>

definition fmt_table :: "pyfloat \<Rightarrow> string" where
  "fmt_table x = (if x = Finite (-1) then ''-1.0'' else if x = Finite 1 then ''1.0'' else ''0.0'')"

text \<open>
  The builtin \<open>float\<close> on the texts \<open>1\<close> and \<open>-1\<close>; it raises on the texts that are
  not in the table.
\<close>

definition float_table :: "string \<Rightarrow> pyfloat option" where
  "float_table s =
     (if s = ''1'' then Some (Finite 1) else if s = ''-1'' then Some (Finite (-1)) else None)"

text \<open>
  Exceptions of the library, with the text Python gives for them: \<open>json.loads\<close> on a
  text that does not start a JSON value, \<open>urlopen\<close> on a failed connection (the text of
  a \<open>URLError\<close> is its reason inside \<open><urlopen error ...>\<close>), \<open>bytes.decode\<close> on a body
  whose first byte is 0xff, and the interrupt of the user, which is not an \<open>Exception\<close>.
\<close>

definition JSONDecodeError :: "string \<Rightarrow> py_exc" where
  "JSONDecodeError msg =
     Exc [''JSONDecodeError'', ''ValueError'', ''Exception'', ''BaseException'', ''object''] msg"


definition UnicodeDecodeError :: "string \<Rightarrow> py_exc" where
  "UnicodeDecodeError msg =
     Exc [''UnicodeDecodeError'', ''UnicodeError'', ''ValueError'', ''Exception'',
          ''BaseException'', ''object''] msg"


text \<open>
  A transport stub. \<open>urlencode\<close> joins the key and the value with \<open>=\<close> and leaves the
  value as it is. \<open>Request\<close> raises \<open>ValueError\<close> "unknown url type" for a URL without a
  colon, as urllib does for a URL without a scheme, and accepts every other URL.
  \<open>urlopen\<close> answers with the given outcome. A body whose first byte is 0xff, which no
  UTF-8 text has, raises \<open>UnicodeDecodeError\<close>, and every other body is decoded as it is.
  The parser knows the texts \<open>[1,2,3]\<close> and \<open>{}\<close> and raises \<open>JSONDecodeError\<close> on every
  other.
\<close>

definition stub_runtime :: "(py_exc + string) \<Rightarrow> runtime" where
  "stub_runtime answer =
     \<lparr>urlencode = (\<lambda>fields. concat (map (\<lambda>(k, v). k @ ''='' @ v) fields)),
      Request = (\<lambda>url body m.
        if CHR '':'' \<in> set url
        then Inr \<lparr>full_url = url, data = body, http_method = m\<rparr>
        else Inl (ValueError (''unknown url type: '' @ quoted url))),
      urlopen_read = (\<lambda>req t. answer),
      decode_utf8 = (\<lambda>raw.
        case raw of
          [] \<Rightarrow> Inr raw
        | c # cs \<Rightarrow>
            if c = CHR 0xFF
            then Inl (UnicodeDecodeError
                   (quoted ''utf-8'' @
                    '' codec can't decode byte 0xff in position 0: invalid start byte''))
            else Inr raw),
      json_loads = (\<lambda>text.
        if text = ''[1,2,3]'' then Inr (JArray [JInt 1, JInt 2, JInt 3])
        else if text = ''{}'' then Inr (JObject [])
        else Inl (JSONDecodeError ''Expecting value: line 1 column 1 (char 0)''))\<rparr>"

section \<open>Properties of the query builder\<close>

subsection \<open>Texts\<close>


lemma strip_star: "strip ''*'' = ''*''"
  by (simp add: strip_def py_isspace_def)

lemma set_strip: "set (strip s) \<subseteq> set s"
proof -
  have "set (strip s) \<subseteq> set (dropWhile py_isspace s)"
    unfolding strip_def using set_dropWhileD [of _ py_isspace "rev (dropWhile py_isspace s)"] by auto
  also have "\<dots> \<subseteq> set s" using set_dropWhileD [of _ py_isspace s] by auto
  finally show ?thesis .
qed

lemma set_join: "set (join sep xs) \<subseteq> set sep \<union> (\<Union>x \<in> set xs. set x)"
  by (induction sep xs rule: join.induct) auto

lemma sublist_embed: "sublist x y \<Longrightarrow> sublist x (p @ y @ s)"
proof -
  assume "sublist x y"
  then obtain ps ss where "y = ps @ x @ ss" by (auto simp: sublist_def)
  then have "p @ y @ s = (p @ ps) @ x @ (ss @ s)" by simp
  then show ?thesis unfolding sublist_def by blast
qed

lemma sublist_join: "x \<in> set xs \<Longrightarrow> sublist x (join sep xs)"
proof (induction sep xs rule: join.induct)
  case (1 sep)
  then show ?case by simp
next
  case (2 sep y)
  then show ?case by simp
next
  case (3 sep y z zs)
  show ?case
  proof (cases "x = y")
    case True
    then show ?thesis by simp
  next
    case False
    with 3 have "sublist x (join sep (z # zs))" by simp
    then have "sublist x ((y @ sep) @ join sep (z # zs) @ [])" by (rule sublist_embed)
    then show ?thesis by simp
  qed
qed

lemma occurrences_absent: "pat \<noteq> [] \<Longrightarrow> hd pat \<notin> set s \<Longrightarrow> occurrences pat s = 0"
  by (induction s) (auto simp: prefix_def neq_Nil_conv)

lemma occurrences_once:
  "pat \<noteq> [] \<Longrightarrow> hd pat \<notin> set a \<Longrightarrow> hd pat \<notin> set (tl pat) \<Longrightarrow> hd pat \<notin> set b \<Longrightarrow>
   occurrences pat (a @ pat @ b) = 1"
proof (induction a)
  case Nil
  then obtain p ps where pat: "pat = p # ps" by (cases pat) auto
  with Nil have "p \<notin> set (ps @ b)" by simp
  then have "occurrences pat (ps @ b) = 0" using pat by (intro occurrences_absent) simp_all
  then show ?case using pat by simp
next
  case (Cons x a)
  then have "\<not> prefix pat (x # a @ pat @ b)" by (auto simp: prefix_def neq_Nil_conv)
  with Cons show ?case by simp
qed

subsection \<open>The tag filter\<close>

lemma wildcard_dropped_cases: "wildcard_dropped cl = (if cl = [''*''] then [] else cl)"
  by (cases cl) (auto simp: wildcard_dropped_def)

lemma tag_filter_empty:
  "cleaned (or_empty vals) = [] \<Longrightarrow> create_tag_filter key vals = presence_predicate key"
  by (simp add: create_tag_filter_def wildcard_dropped_cases)

lemma tag_filter_star:
  "cleaned (or_empty vals) = [''*''] \<Longrightarrow> create_tag_filter key vals = presence_predicate key"
  by (simp add: create_tag_filter_def wildcard_dropped_cases)

lemma tag_filter_one:
  "cleaned (or_empty vals) = [v] \<Longrightarrow> v \<noteq> ''*'' \<Longrightarrow>
   create_tag_filter key vals = equality_predicate key v"
  by (simp add: create_tag_filter_def wildcard_dropped_cases)

lemma tag_filter_many:
  "2 \<le> length (cleaned (or_empty vals)) \<Longrightarrow>
   create_tag_filter key vals = membership_predicate key (cleaned (or_empty vals))"
proof -
  assume "2 \<le> length (cleaned (or_empty vals))"
  then obtain a b rest where "cleaned (or_empty vals) = a # b # rest"
    by (cases "cleaned (or_empty vals)"; cases "tl (cleaned (or_empty vals))") auto
  then show ?thesis by (simp add: create_tag_filter_def wildcard_dropped_cases)
qed

lemma membership_contains:
  "v \<in> set vs \<Longrightarrow> sublist (quoted (strip v)) (membership_predicate key vs)"
proof -
  assume "v \<in> set vs"
  then have "quoted (strip v) \<in> set (map (\<lambda>v. quoted (strip v)) vs)" by auto
  then have "sublist (quoted (strip v)) (join '', '' (map (\<lambda>v. quoted (strip v)) vs))"
    by (rule sublist_join)
  then have "sublist (quoted (strip v))
     ((''tags->>'' @ quoted (strip key) @ '' IN ('') @
      join '', '' (map (\<lambda>v. quoted (strip v)) vs) @ '')'')"
    by (rule sublist_embed)
  then show ?thesis by (simp add: membership_predicate_def)
qed

lemma presence_ne_membership: "presence_predicate k \<noteq> membership_predicate k' vs"
  by (simp add: presence_predicate_def membership_predicate_def)

lemma tag_filter_last: "last (create_tag_filter key vals) \<in> {CHR 0x27, CHR '')''}"
  by (simp add: create_tag_filter_def presence_predicate_def equality_predicate_def
      membership_predicate_def quoted_def Let_def)

lemma tag_filter_nonempty: "create_tag_filter key vals \<noteq> []"
  by (simp add: create_tag_filter_def presence_predicate_def equality_predicate_def
      membership_predicate_def quoted_def Let_def)

text \<open>
  C2: with \<open>cleaned\<close> the values without their \<open>None\<close> and empty entries,
  \<open>create_tag_filter\<close> returns the presence-only predicate \<open>tags ? 'key'\<close> when
  \<open>cleaned\<close> is empty or is the one entry \<open>*\<close>; the equality predicate
  \<open>tags->>'key' = 'v'\<close> when \<open>cleaned\<close> is one entry \<open>v\<close> other than \<open>*\<close>; and the
  membership predicate \<open>tags->>'key' IN (...)\<close> when \<open>cleaned\<close> has two or more entries,
  in which every cleaned value occurs, trimmed and quoted. The key and the values are
  trimmed, nothing is escaped.
\<close>

theorem tag_filter_policy:
  "(cleaned (or_empty vals) = [] \<or> cleaned (or_empty vals) = [''*''] \<longrightarrow>
      create_tag_filter key vals = ''tags ? '' @ quoted (strip key)) \<and>
   (\<forall>v. cleaned (or_empty vals) = [v] \<and> v \<noteq> ''*'' \<longrightarrow>
      create_tag_filter key vals =
        ''tags->>'' @ quoted (strip key) @ '' = '' @ quoted (strip v)) \<and>
   (2 \<le> length (cleaned (or_empty vals)) \<longrightarrow>
      create_tag_filter key vals =
        ''tags->>'' @ quoted (strip key) @ '' IN ('' @
          join '', '' (map (\<lambda>v. quoted (strip v)) (cleaned (or_empty vals))) @ '')'' \<and>
      (\<forall>v \<in> set (cleaned (or_empty vals)).
         sublist (quoted (strip v)) (create_tag_filter key vals)))"
proof (intro conjI impI allI ballI)
  assume "cleaned (or_empty vals) = [] \<or> cleaned (or_empty vals) = [''*'']"
  then show "create_tag_filter key vals = ''tags ? '' @ quoted (strip key)"
    using tag_filter_empty [of vals key] tag_filter_star [of vals key]
    by (auto simp: presence_predicate_def)
next
  fix v
  assume "cleaned (or_empty vals) = [v] \<and> v \<noteq> ''*''"
  then show "create_tag_filter key vals =
      ''tags->>'' @ quoted (strip key) @ '' = '' @ quoted (strip v)"
    using tag_filter_one [of vals v key] by (simp add: equality_predicate_def)
next
  assume "2 \<le> length (cleaned (or_empty vals))"
  then show "create_tag_filter key vals =
        ''tags->>'' @ quoted (strip key) @ '' IN ('' @
          join '', '' (map (\<lambda>v. quoted (strip v)) (cleaned (or_empty vals))) @ '')''"
    using tag_filter_many [of vals key] by (simp add: membership_predicate_def)
next
  fix v
  assume "2 \<le> length (cleaned (or_empty vals))" and "v \<in> set (cleaned (or_empty vals))"
  then show "sublist (quoted (strip v)) (create_tag_filter key vals)"
    using tag_filter_many [of vals key] membership_contains [of v "cleaned (or_empty vals)" key]
    by simp
qed

theorem tag_filter_policy_witness:
  "create_tag_filter ''amenity'' None = ''tags ? 'amenity'' @ [CHR 0x27] \<and>
   create_tag_filter ''amenity'' (Some [None, Some ''*'']) = ''tags ? 'amenity'' @ [CHR 0x27] \<and>
   create_tag_filter '' amenity'' (Some [Some ''cafe '']) =
     ''tags->>'amenity' = 'cafe'' @ [CHR 0x27] \<and>
   create_tag_filter ''amenity'' (Some [Some ''a'', Some '''', None, Some ''b'']) =
     ''tags->>'amenity' IN ('a', 'b')''"
  using tag_filter_policy [of None "''amenity''"]
    tag_filter_policy [of "Some [None, Some ''*'']" "''amenity''"]
    tag_filter_policy [of "Some [Some ''cafe '']" "'' amenity''"]
    tag_filter_policy [of "Some [Some ''a'', Some '''', None, Some ''b'']" "''amenity''"]
  by (simp add: quoted_def strip_def py_isspace_def)

text \<open>
  C8: for every key, the values \<open>[]\<close>, \<open>["*"]\<close> and \<open>["*", ""]\<close> give the same
  output, the presence-only predicate of the key.
\<close>

theorem tag_filter_presence_cases:
  "create_tag_filter key (Some []) = presence_predicate key \<and>
   create_tag_filter key (Some [Some ''*'']) = presence_predicate key \<and>
   create_tag_filter key (Some [Some ''*'', Some '''']) = presence_predicate key"
  by (simp add: create_tag_filter_def wildcard_dropped_def)

theorem tag_filter_presence_cases_witness:
  "create_tag_filter ''building'' (Some []) = ''tags ? 'building'' @ [CHR 0x27] \<and>
   create_tag_filter ''building'' (Some [Some ''*'']) = ''tags ? 'building'' @ [CHR 0x27] \<and>
   create_tag_filter ''building'' (Some [Some ''*'', Some '''']) = ''tags ? 'building'' @ [CHR 0x27]"
  using tag_filter_presence_cases [of "''building''"]
  by (simp add: presence_predicate_def quoted_def strip_def py_isspace_def)

text \<open>
  C10: when the cleaned values have two or more entries and \<open>*\<close> is one of them, the
  \<open>*\<close> is an ordinary literal: the result is the membership predicate over the cleaned
  values, its list has the entry \<open>'*'\<close>, and the result is not the presence-only predicate.
\<close>

theorem star_among_many_is_literal:
  "2 \<le> length (cleaned (or_empty vals)) \<Longrightarrow> ''*'' \<in> set (cleaned (or_empty vals)) \<Longrightarrow>
   create_tag_filter key vals = membership_predicate key (cleaned (or_empty vals)) \<and>
   quoted ''*'' \<in> set (map (\<lambda>v. quoted (strip v)) (cleaned (or_empty vals))) \<and>
   sublist (quoted ''*'') (create_tag_filter key vals) \<and>
   create_tag_filter key vals \<noteq> presence_predicate key"
proof (intro conjI)
  assume len: "2 \<le> length (cleaned (or_empty vals))"
    and star: "''*'' \<in> set (cleaned (or_empty vals))"
  show m: "create_tag_filter key vals = membership_predicate key (cleaned (or_empty vals))"
    using len by (rule tag_filter_many)
  have "quoted (strip ''*'') \<in> set (map (\<lambda>v. quoted (strip v)) (cleaned (or_empty vals)))"
    using star by (simp add: image_iff) blast
  then show "quoted ''*'' \<in> set (map (\<lambda>v. quoted (strip v)) (cleaned (or_empty vals)))"
    by (simp add: strip_star)
  show "sublist (quoted ''*'') (create_tag_filter key vals)"
    using membership_contains [OF star, of key] m by (simp add: strip_star)
  show "create_tag_filter key vals \<noteq> presence_predicate key"
    using m presence_ne_membership [of key key "cleaned (or_empty vals)"] by metis
qed

theorem star_among_many_is_literal_witness:
  "2 \<le> length (cleaned (or_empty (Some [Some ''*'', Some ''a'']))) \<and>
   ''*'' \<in> set (cleaned (or_empty (Some [Some ''*'', Some ''a'']))) \<and>
   create_tag_filter ''k'' (Some [Some ''*'', Some ''a'']) = ''tags->>'k' IN ('*', 'a')'' \<and>
   create_tag_filter ''k'' (Some [Some ''*'', Some ''a'']) \<noteq> presence_predicate ''k''"
proof -
  have l: "2 \<le> length (cleaned (or_empty (Some [Some ''*'', Some ''a''])))" by simp
  have s: "''*'' \<in> set (cleaned (or_empty (Some [Some ''*'', Some ''a''])))" by simp
  show ?thesis
    using star_among_many_is_literal [OF l s, of "''k''"] l s
    by (simp add: membership_predicate_def presence_predicate_def quoted_def strip_def
        py_isspace_def)
qed

subsection \<open>The query\<close>

lemma projection_no_W: "CHR ''W'' \<notin> set s \<Longrightarrow> CHR ''W'' \<notin> set (projection s)"
  by (simp add: projection_def quoted_def)

lemma column_loop_no_W:
  "\<forall>x \<in> set acc. CHR ''W'' \<notin> set x \<Longrightarrow> \<forall>x \<in> set cols. CHR ''W'' \<notin> set x \<Longrightarrow>
   \<forall>x \<in> set (column_loop acc cols). CHR ''W'' \<notin> set x"
proof (induction cols arbitrary: acc)
  case Nil
  then show ?case by simp
next
  case (Cons col cols)
  have "CHR ''W'' \<notin> set col" using Cons.prems(2) by simp
  then have "CHR ''W'' \<notin> set (strip col)" using set_strip [of col] by blast
  then have p: "CHR ''W'' \<notin> set (projection (strip col))" by (rule projection_no_W)
  have rest: "\<forall>x \<in> set cols. CHR ''W'' \<notin> set x" using Cons.prems(2) by simp
  show ?case
  proof (cases "strip col = [] \<or> strip col = ''*''")
    case True
    then have "column_loop acc (col # cols) = column_loop acc cols" by (simp add: Let_def)
    then show ?thesis using Cons.IH [OF Cons.prems(1) rest] by simp
  next
    case False
    then have e: "column_loop acc (col # cols) = column_loop (acc @ [projection (strip col)]) cols"
      by (simp add: Let_def)
    have "\<forall>x \<in> set (acc @ [projection (strip col)]). CHR ''W'' \<notin> set x"
      using Cons.prems(1) p by simp
    from Cons.IH [OF this rest] e show ?thesis by simp
  qed
qed

lemma column_filter_no_W:
  "\<forall>x \<in> set cols. CHR ''W'' \<notin> set x \<Longrightarrow> CHR ''W'' \<notin> set (create_column_filter cols cent)"
proof -
  assume a: "\<forall>x \<in> set cols. CHR ''W'' \<notin> set x"
  have "\<forall>x \<in> set (column_loop [''osm_id'', ''tags''] cols). CHR ''W'' \<notin> set x"
    using a by (intro column_loop_no_W) simp_all
  then have "\<forall>x \<in> set (column_loop [''osm_id'', ''tags''] cols @
       [if cent then ''ST_Centroid(geom) as geom'' else ''geom'']). CHR ''W'' \<notin> set x"
    by simp
  then show ?thesis
    unfolding create_column_filter_def Let_def
    using set_join [of "'', ''" "column_loop [''osm_id'', ''tags''] cols @
       [if cent then ''ST_Centroid(geom) as geom'' else ''geom'']"]
    by (auto simp del: set_append)
qed

lemma bbox_filter_no_W:
  "\<forall>x. CHR ''W'' \<notin> set (fmt x) \<Longrightarrow> CHR ''W'' \<notin> set (create_bbox_filter fmt bbox ''geom'')"
  by (cases bbox) (simp add: create_bbox_filter_def)

lemma bbox_filter_last: "last (create_bbox_filter fmt bbox g) = CHR '')''"
  by (cases bbox) (simp add: create_bbox_filter_def)

lemma bbox_filter_nonempty: "create_bbox_filter fmt bbox g \<noteq> []"
  by (cases bbox) (simp add: create_bbox_filter_def)

lemma build_simple_query_returns:
  "truthy table \<Longrightarrow>
   \<exists>q. build_simple_query fmt table bbox columns tag_key tag_values use_centroid = Inr q"
  by (simp add: build_simple_query_def Let_def)

text \<open>
  C1: where Python prints the floats \<open>-1.0\<close> and \<open>1.0\<close> as \<open>-1.0\<close> and \<open>1.0\<close>, the
  request with table \<open>postpass_point\<close>, box \<open>(-1.0, -1.0, 1.0, 1.0)\<close>, no extra column,
  tag key \<open>amenity\<close> and tag values \<open>["fast_food"]\<close> gives exactly the query of the
  documented example (its last character, the closing quote of \<open>'fast_food'\<close>, is
  appended to the literal).
\<close>

theorem documented_example:
  "fmt (Finite (-1)) = ''-1.0'' \<Longrightarrow> fmt (Finite 1) = ''1.0'' \<Longrightarrow>
   build_simple_query fmt (Some ''postpass_point'') (Finite (-1), Finite (-1), Finite 1, Finite 1)
     None (Some ''amenity'') (Some [Some ''fast_food'']) False =
   Inr (''SELECT osm_id, tags, geom FROM postpass_point WHERE geom && ST_SetSRID(ST_MakeBox2D(ST_MakePoint(-1.0, -1.0),ST_MakePoint(1.0, 1.0)), 4326) AND tags->>'amenity' = 'fast_food'' @ [CHR 0x27])"
  by (simp add: build_simple_query_def create_column_filter_def create_bbox_filter_def
      create_tag_filter_def wildcard_dropped_def equality_predicate_def quoted_def strip_def
      py_isspace_def)

theorem documented_example_witness:
  "fmt_table (Finite (-1)) = ''-1.0'' \<and> fmt_table (Finite 1) = ''1.0'' \<and>
   build_simple_query fmt_table (Some ''postpass_point'')
     (Finite (-1), Finite (-1), Finite 1, Finite 1)
     None (Some ''amenity'') (Some [Some ''fast_food'']) False =
   Inr (''SELECT osm_id, tags, geom FROM postpass_point WHERE geom && ST_SetSRID(ST_MakeBox2D(ST_MakePoint(-1.0, -1.0),ST_MakePoint(1.0, 1.0)), 4326) AND tags->>'amenity' = 'fast_food'' @ [CHR 0x27])"
proof -
  have a: "fmt_table (Finite (-1)) = ''-1.0''" and b: "fmt_table (Finite 1) = ''1.0''"
    by (simp_all add: fmt_table_def)
  from documented_example [OF a b] a b show ?thesis by simp
qed

text \<open>
  C6: for every table that is not empty and every box, \<open>build_simple_query\<close> returns a
  query. Without a tag key the query is \<open>SELECT columns FROM table WHERE bbox-filter\<close>;
  with a tag key the tag filter follows, joined with \<open>AND\<close>, and it is there in no other
  case. The query starts with \<open>SELECT\<close> and does not end with a semicolon. Without a tag
  key, the text \<open>WHERE\<close> occurs exactly once in it, provided the letter \<open>W\<close> is neither
  in the table name, nor in a column, nor in the text of a float.
\<close>

theorem query_shape:
  assumes "truthy table"
  shows "\<exists>q. build_simple_query fmt table bbox columns tag_key tag_values use_centroid = Inr q \<and>
    (let base = ''SELECT '' @ create_column_filter (or_empty columns) use_centroid @
                '' FROM '' @ py_str table @ '' WHERE '' @ create_bbox_filter fmt bbox ''geom''
     in (\<not> truthy tag_key \<longrightarrow> q = base) \<and>
        (truthy tag_key \<longrightarrow>
           q = base @ '' AND '' @ create_tag_filter (py_str tag_key) (Some (or_empty tag_values)))) \<and>
    prefix ''SELECT'' q \<and>
    last q \<noteq> CHR '';'' \<and>
    (\<not> truthy tag_key \<and> CHR ''W'' \<notin> set (py_str table) \<and>
     (\<forall>col \<in> set (or_empty columns). CHR ''W'' \<notin> set col) \<and> (\<forall>x. CHR ''W'' \<notin> set (fmt x)) \<longrightarrow>
       occurrences ''WHERE'' q = 1)"
proof -
  define cols where "cols = create_column_filter (or_empty columns) use_centroid"
  define bf where "bf = create_bbox_filter fmt bbox ''geom''"
  define tf where "tf = create_tag_filter (py_str tag_key) (Some (or_empty tag_values))"
  define base where "base = ''SELECT '' @ cols @ '' FROM '' @ py_str table @ '' WHERE '' @ bf"
  define q where "q = (if truthy tag_key then base @ '' AND '' @ tf else base)"
  have run: "build_simple_query fmt table bbox columns tag_key tag_values use_centroid = Inr q"
    using assms by (simp add: build_simple_query_def q_def base_def cols_def bf_def tf_def)
  have shape: "(\<not> truthy tag_key \<longrightarrow> q = base) \<and> (truthy tag_key \<longrightarrow> q = base @ '' AND '' @ tf)"
    by (simp add: q_def)
  have start: "prefix ''SELECT'' q"
    by (simp add: q_def base_def)
  have bf_last: "last bf = CHR '')''" and bf_ne: "bf \<noteq> []"
    by (simp_all add: bf_def bbox_filter_last bbox_filter_nonempty)
  have tf_last: "last tf \<in> {CHR 0x27, CHR '')''}" and tf_ne: "tf \<noteq> []"
    by (simp_all add: tf_def tag_filter_last tag_filter_nonempty del: insert_iff)
  have "last q \<in> {CHR 0x27, CHR '')''}"
    using bf_last bf_ne tf_last tf_ne by (simp add: q_def base_def)
  then have nosemi: "last q \<noteq> CHR '';''" by auto
  have once: "occurrences ''WHERE'' q = 1"
    if "\<not> truthy tag_key" and t: "CHR ''W'' \<notin> set (py_str table)"
      and c: "\<forall>col \<in> set (or_empty columns). CHR ''W'' \<notin> set col"
      and f: "\<forall>x. CHR ''W'' \<notin> set (fmt x)"
  proof -
    have 1: "CHR ''W'' \<notin> set cols" unfolding cols_def using c by (rule column_filter_no_W)
    have 2: "CHR ''W'' \<notin> set bf" unfolding bf_def using f by (rule bbox_filter_no_W)
    have "q = (''SELECT '' @ cols @ '' FROM '' @ py_str table @ '' '') @ ''WHERE'' @ ('' '' @ bf)"
      using that(1) by (simp add: q_def base_def)
    moreover have "occurrences ''WHERE''
        ((''SELECT '' @ cols @ '' FROM '' @ py_str table @ '' '') @ ''WHERE'' @ ('' '' @ bf)) = 1"
      using 1 2 t by (intro occurrences_once) simp_all
    ultimately show ?thesis by simp
  qed
  show ?thesis
    using run shape start nosemi once
    unfolding Let_def base_def cols_def bf_def tf_def by blast
qed

theorem query_shape_witness:
  \<open>truthy (Some ''postpass_line'') \<and>
   build_simple_query fmt_table (Some ''postpass_line'')
     (Finite (-1), Finite (-1), Finite 1, Finite 1) (Some [''name'', ''*'']) None None False =
   Inr ''SELECT osm_id, tags, tags->>'name' as "name", geom FROM postpass_line WHERE geom && ST_SetSRID(ST_MakeBox2D(ST_MakePoint(-1.0, -1.0),ST_MakePoint(1.0, 1.0)), 4326)'' \<and>
   occurrences ''WHERE'' ''SELECT osm_id, tags, tags->>'name' as "name", geom FROM postpass_line WHERE geom && ST_SetSRID(ST_MakeBox2D(ST_MakePoint(-1.0, -1.0),ST_MakePoint(1.0, 1.0)), 4326)'' = 1\<close>
proof -
  have t: "truthy (Some ''postpass_line'')" by simp
  have w: "\<forall>x. CHR ''W'' \<notin> set (fmt_table x)" by (simp add: fmt_table_def)
  let ?Q = \<open>''SELECT osm_id, tags, tags->>'name' as "name", geom FROM postpass_line WHERE geom && ST_SetSRID(ST_MakeBox2D(ST_MakePoint(-1.0, -1.0),ST_MakePoint(1.0, 1.0)), 4326)''\<close>
  have q: \<open>build_simple_query fmt_table (Some ''postpass_line'')
     (Finite (-1), Finite (-1), Finite 1, Finite 1) (Some [''name'', ''*'']) None None False =
   Inr ?Q\<close>
    by (simp add: build_simple_query_def create_column_filter_def create_bbox_filter_def
        projection_def quoted_def fmt_table_def strip_def py_isspace_def)
  from query_shape [OF t, of fmt_table "(Finite (-1), Finite (-1), Finite 1, Finite 1)"
        "Some [''name'', ''*'']" None None False]
  obtain q0 where r: "build_simple_query fmt_table (Some ''postpass_line'')
        (Finite (-1), Finite (-1), Finite 1, Finite 1) (Some [''name'', ''*'']) None None False =
        Inr q0"
    and o: "\<not> truthy None \<and> CHR ''W'' \<notin> set (py_str (Some ''postpass_line'')) \<and>
        (\<forall>col \<in> set (or_empty (Some [''name'', ''*''])). CHR ''W'' \<notin> set col) \<and>
        (\<forall>x. CHR ''W'' \<notin> set (fmt_table x)) \<longrightarrow> occurrences ''WHERE'' q0 = 1"
    by blast
  have h: "\<not> truthy None \<and> CHR ''W'' \<notin> set (py_str (Some ''postpass_line'')) \<and>
        (\<forall>col \<in> set (or_empty (Some [''name'', ''*''])). CHR ''W'' \<notin> set col) \<and>
        (\<forall>x. CHR ''W'' \<notin> set (fmt_table x))"
    using w by simp
  from o h have "occurrences ''WHERE'' q0 = 1" by (rule mp)
  moreover from r q have "Inr q0 = (Inr ?Q :: py_exc + string)" by simp
  then have "q0 = ?Q" by (simp only: sum.inject)
  ultimately have "occurrences ''WHERE'' ?Q = 1" by (simp only:)
  with t q show ?thesis by (simp only: simp_thms)
qed

text \<open>
  C7: when the table is \<open>None\<close> or empty, \<open>build_simple_query\<close> raises the
  \<open>ValueError\<close> "table is required for Postpass query."; the check is its first
  statement, so the outcome is the same for every box, column list, tag filter and
  float format, none of which is looked at.
\<close>

theorem empty_table_rejected:
  "\<not> truthy table \<Longrightarrow>
   build_simple_query fmt table bbox columns tag_key tag_values use_centroid =
     Inl (ValueError ''table is required for Postpass query.'')"
  by (simp add: build_simple_query_def)

theorem empty_table_rejected_witness:
  "\<not> truthy (Some '''') \<and> \<not> truthy None \<and>
   build_simple_query fmt_table (Some '''') (Finite (-1), Finite (-1), Finite 1, Finite 1)
     (Some [''name'']) (Some ''amenity'') (Some [Some ''cafe'']) True =
     Inl (ValueError ''table is required for Postpass query.'') \<and>
   build_simple_query fmt_table None (Finite (-1), Finite (-1), Finite 1, Finite 1)
     None None None False =
     Inl (ValueError ''table is required for Postpass query.'')"
proof -
  have a: "\<not> truthy (Some '''')" and b: "\<not> truthy None" by simp_all
  show ?thesis
    using empty_table_rejected [OF a, of fmt_table "(Finite (-1), Finite (-1), Finite 1, Finite 1)"
        "Some [''name'']" "Some ''amenity''" "Some [Some ''cafe'']" True]
      empty_table_rejected [OF b, of fmt_table "(Finite (-1), Finite (-1), Finite 1, Finite 1)"
        None None None False] a b
    by simp
qed

section \<open>Properties of the client\<close>

text \<open>
  C4: with an empty endpoint \<open>run_sql\<close> raises \<open>PostpassClientError\<close> "PostPass endpoint
  is required." (the configuration error), and with an SQL text that is empty or blank it
  raises \<open>PostpassClientError\<close> "SQL query is required." (the invalid request) when the
  endpoint is set; the endpoint is checked first. In each case nothing is handed to
  \<open>urlopen\<close>.
\<close>

theorem run_sql_guards:
  "(endpoint self = [] \<longrightarrow>
      run_sql rt self sql = (Inl (PostpassClientError ''PostPass endpoint is required.''), [])) \<and>
   (endpoint self \<noteq> [] \<and> strip sql = [] \<longrightarrow>
      run_sql rt self sql = (Inl (PostpassClientError ''SQL query is required.''), [])) \<and>
   (strip sql = [] \<longrightarrow>
      (\<exists>msg. fst (run_sql rt self sql) = Inl (PostpassClientError msg)) \<and>
      snd (run_sql rt self sql) = [])"
  by (auto simp: run_sql_def)

theorem run_sql_guards_witness:
  "run_sql (stub_runtime (Inr ''{}'')) (new_client '''') ''SELECT 1'' =
     (Inl (PostpassClientError ''PostPass endpoint is required.''), []) \<and>
   run_sql (stub_runtime (Inr ''{}'')) (new_client DEFAULT_POSTPASS_ENDPOINT) '''' =
     (Inl (PostpassClientError ''SQL query is required.''), []) \<and>
   run_sql (stub_runtime (Inr ''{}'')) (new_client DEFAULT_POSTPASS_ENDPOINT) ''  '' =
     (Inl (PostpassClientError ''SQL query is required.''), [])"
  using run_sql_guards [of "new_client ''''" "stub_runtime (Inr ''{}'')" "''SELECT 1''"]
    run_sql_guards [of "new_client DEFAULT_POSTPASS_ENDPOINT" "stub_runtime (Inr ''{}'')" "''''"]
    run_sql_guards [of "new_client DEFAULT_POSTPASS_ENDPOINT" "stub_runtime (Inr ''{}'')" "''  ''"]
  by (simp add: new_client_def DEFAULT_POSTPASS_ENDPOINT_def strip_def py_isspace_def)




text \<open>
  The click handler of the dialog catches \<open>ValueError\<close> together with
  \<open>PostpassClientError\<close>: the exception of the endpoint without a scheme ends as a
  message of the dialog.
\<close>

lemma dialog_shows_request_error:
  "on_run_clicked fmt_table (stub_runtime (Inr ''{}'')) float_table
     \<lparr>endpointEdit = ''abc'', geomCombo = Some ''postpass_point'',
      bboxEdit = ''-1,-1,1,1'', tagKeyEdit = '''', tagValueEdit = ''''\<rparr> =
   (ErrorShown (''unknown url type: '' @ quoted ''abc''), [])"
  by (simp add: on_run_clicked_def parse_bbox_def float_table_def float_ge_def or_none_def
      extract_buildings_def build_simple_query_def run_sql_def stub_runtime_def new_client_def
      isinstance_def ValueError_def create_column_filter_def create_bbox_filter_def
      create_tag_filter_def wildcard_dropped_def equality_predicate_def quoted_def
      fmt_table_def strip_def py_isspace_def Let_def)

text \<open>
  C5: for every box, \<open>extract_buildings\<close> is \<open>run_sql\<close> applied once to the query that
  \<open>build_simple_query\<close> builds for the table \<open>postpass_pointpolygon\<close>, the tag key
  \<open>building\<close>, the tag values \<open>["yes"]\<close> and no extra column; that query contains the
  texts \<open>postpass_pointpolygon\<close>, \<open>building\<close> and \<open>'yes'\<close>.
\<close>

theorem extract_buildings_is_run_sql:
  "\<exists>sql. build_simple_query fmt (Some ''postpass_pointpolygon'') bbox None
            (Some ''building'') (Some [Some ''yes'']) False = Inr sql \<and>
         extract_buildings fmt rt self bbox = run_sql rt self sql \<and>
         sql = ''SELECT osm_id, tags, geom FROM postpass_pointpolygon WHERE '' @
               create_bbox_filter fmt bbox ''geom'' @ '' AND tags->>'building' = '' @ quoted ''yes'' \<and>
         sublist ''postpass_pointpolygon'' sql \<and>
         sublist ''building'' sql \<and>
         sublist (quoted ''yes'') sql"
proof -
  define bf where "bf = create_bbox_filter fmt bbox ''geom''"
  define sql where "sql = ''SELECT osm_id, tags, geom FROM postpass_pointpolygon WHERE '' @
               bf @ '' AND tags->>'building' = '' @ quoted ''yes''"
  have q: "build_simple_query fmt (Some ''postpass_pointpolygon'') bbox cols
            (Some ''building'') (Some [Some ''yes'']) False = Inr sql"
    if "cols = None \<or> cols = Some []" for cols
    using that
    by (auto simp: build_simple_query_def create_column_filter_def create_tag_filter_def
        wildcard_dropped_def equality_predicate_def quoted_def strip_def py_isspace_def
        sql_def bf_def)
  have e: "extract_buildings fmt rt self bbox = run_sql rt self sql"
    by (simp add: extract_buildings_def q)
  have "sql = ''SELECT osm_id, tags, geom FROM '' @ ''postpass_pointpolygon'' @ ('' WHERE '' @
               bf @ '' AND tags->>'building' = '' @ quoted ''yes'')"
    by (simp add: sql_def)
  then have s1: "sublist ''postpass_pointpolygon'' sql" by (simp only: sublist_appendI)
  have "sql = (''SELECT osm_id, tags, geom FROM postpass_pointpolygon WHERE '' @
               bf @ '' AND tags->>'' @ [CHR 0x27]) @ ''building'' @
               ([CHR 0x27] @ '' = '' @ quoted ''yes'')"
    by (simp add: sql_def)
  then have s2: "sublist ''building'' sql" by (simp only: sublist_appendI)
  have "sql = (''SELECT osm_id, tags, geom FROM postpass_pointpolygon WHERE '' @
               bf @ '' AND tags->>'building' = '') @ quoted ''yes'' @ []"
    by (simp add: sql_def)
  then have s3: "sublist (quoted ''yes'') sql" by (simp only: sublist_appendI)
  have q0: "build_simple_query fmt (Some ''postpass_pointpolygon'') bbox None
            (Some ''building'') (Some [Some ''yes'']) False = Inr sql"
    by (rule q) simp
  have d: "sql = ''SELECT osm_id, tags, geom FROM postpass_pointpolygon WHERE '' @
               create_bbox_filter fmt bbox ''geom'' @ '' AND tags->>'building' = '' @ quoted ''yes''"
    by (simp only: sql_def bf_def)
  show ?thesis
    by (rule exI [of _ sql]) (intro conjI q0 e d s1 s2 s3)
qed

theorem extract_buildings_is_run_sql_witness:
  "extract_buildings fmt_table (stub_runtime (Inr ''{}'')) (new_client ''http://h/api'')
     (Finite (-1), Finite (-1), Finite 1, Finite 1) =
   (Inr (JObject []),
    [\<lparr>full_url = ''http://h/api'',
      data = ''data=SELECT osm_id, tags, geom FROM postpass_pointpolygon WHERE geom && ST_SetSRID(ST_MakeBox2D(ST_MakePoint(-1.0, -1.0),ST_MakePoint(1.0, 1.0)), 4326) AND tags->>'building' = 'yes'' @ [CHR 0x27],
      http_method = ''POST''\<rparr>])"
  using extract_buildings_is_run_sql [of fmt_table "(Finite (-1), Finite (-1), Finite 1, Finite 1)"
      "stub_runtime (Inr ''{}'')" "new_client ''http://h/api''"]
  by (simp add: create_bbox_filter_def fmt_table_def run_sql_def stub_runtime_def new_client_def
      quoted_def parse_payload_def strip_def py_isspace_def)

section \<open>The order of the box\<close>

lemma parse_bbox_ordered:
  assumes "parse_bbox to_float text = Inr (min_lon, min_lat, max_lon, max_lat)"
  shows "\<not> float_ge min_lon max_lon \<and> \<not> float_ge min_lat max_lat"
  using assms
  by (auto simp: parse_bbox_def Let_def split: if_splits list.splits option.splits)

lemma parse_bbox_rejects:
  assumes "strip text \<noteq> []"
    and "map to_float (map strip (split_on CHR '','' (strip text))) =
           [Some a, Some b, Some c, Some e]"
    and "float_ge a c \<or> float_ge b e"
  shows "parse_bbox to_float text = Inl ''Bounding box min values must be less than max values.''"
proof -
  have "length (map to_float (map strip (split_on CHR '','' (strip text)))) = 4"
    using assms(2) by simp
  then have len: "length (map strip (split_on CHR '','' (strip text))) = 4" by simp
  show ?thesis
    using assms len unfolding parse_bbox_def Let_def by auto
qed

text \<open>
  C9, as the claim states it, fails: the box \<open>(1.0, 1.0, -1.0, -1.0)\<close> has
  \<open>min_lon >= max_lon\<close>, yet \<open>build_simple_query\<close> returns a query for it and
  \<open>extract_buildings\<close> posts its query and returns the response.
\<close>

theorem bbox_order_unchecked_counterexample:
  "float_ge (Finite 1) (Finite (-1)) \<and>
   build_simple_query fmt_table (Some ''postpass_point'')
     (Finite 1, Finite 1, Finite (-1), Finite (-1)) None None None False =
     Inr ''SELECT osm_id, tags, geom FROM postpass_point WHERE geom && ST_SetSRID(ST_MakeBox2D(ST_MakePoint(1.0, 1.0),ST_MakePoint(-1.0, -1.0)), 4326)'' \<and>
   extract_buildings fmt_table (stub_runtime (Inr ''{}'')) (new_client ''http://h/api'')
     (Finite 1, Finite 1, Finite (-1), Finite (-1)) =
     (Inr (JObject []),
      [\<lparr>full_url = ''http://h/api'',
        data = ''data=SELECT osm_id, tags, geom FROM postpass_pointpolygon WHERE geom && ST_SetSRID(ST_MakeBox2D(ST_MakePoint(1.0, 1.0),ST_MakePoint(-1.0, -1.0)), 4326) AND tags->>'building' = 'yes'' @ [CHR 0x27],
        http_method = ''POST''\<rparr>])"
  by (simp add: float_ge_def build_simple_query_def create_column_filter_def create_bbox_filter_def
      fmt_table_def extract_buildings_def run_sql_def stub_runtime_def new_client_def
      create_tag_filter_def wildcard_dropped_def equality_predicate_def quoted_def
      parse_payload_def strip_def py_isspace_def)

text \<open>
  C9, amended: the order of the box is checked by the dialog, not by the query builder or
  the client. \<open>build_simple_query\<close> returns a query for every box when the table is not
  empty. In the dialog, a box text of four floats with \<open>min_lon >= max_lon\<close> or
  \<open>min_lat >= max_lat\<close> makes the click handler show "Bounding box min values must be
  less than max values." and stop before any request is posted, and a box that
  \<open>_parse_bbox\<close> returns has neither \<open>min_lon >= max_lon\<close> nor \<open>min_lat >= max_lat\<close>.
\<close>

theorem bbox_order_checked_by_dialog:
  "(truthy table \<longrightarrow>
      (\<exists>q. build_simple_query fmt table bbox columns tag_key tag_values use_centroid = Inr q)) \<and>
   (\<forall>a b c e. strip (bboxEdit d) \<noteq> [] \<and>
       map to_float (map strip (split_on CHR '','' (strip (bboxEdit d)))) =
         [Some a, Some b, Some c, Some e] \<and>
       (float_ge a c \<or> float_ge b e) \<longrightarrow>
       on_run_clicked fmt rt to_float d =
         (ErrorShown ''Bounding box min values must be less than max values.'', [])) \<and>
   (\<forall>a b c e. parse_bbox to_float (bboxEdit d) = Inr (a, b, c, e) \<longrightarrow>
       \<not> float_ge a c \<and> \<not> float_ge b e)"
proof (intro conjI impI allI)
  assume "truthy table"
  then show "\<exists>q. build_simple_query fmt table bbox columns tag_key tag_values use_centroid = Inr q"
    by (rule build_simple_query_returns)
next
  fix a b c e
  assume h: "strip (bboxEdit d) \<noteq> [] \<and>
       map to_float (map strip (split_on CHR '','' (strip (bboxEdit d)))) =
         [Some a, Some b, Some c, Some e] \<and>
       (float_ge a c \<or> float_ge b e)"
  have h1: "strip (bboxEdit d) \<noteq> []" using h by (rule conjunct1)
  have h2: "map to_float (map strip (split_on CHR '','' (strip (bboxEdit d)))) =
         [Some a, Some b, Some c, Some e]" using h by (rule conjunct1 [OF conjunct2])
  have h3: "float_ge a c \<or> float_ge b e" using h by (rule conjunct2 [OF conjunct2])
  have "parse_bbox to_float (bboxEdit d) =
      Inl ''Bounding box min values must be less than max values.''"
    using h1 h2 h3 by (rule parse_bbox_rejects)
  then show "on_run_clicked fmt rt to_float d =
         (ErrorShown ''Bounding box min values must be less than max values.'', [])"
    by (simp add: on_run_clicked_def)
next
  fix a b c e
  assume "parse_bbox to_float (bboxEdit d) = Inr (a, b, c, e)"
  then show "\<not> float_ge a c" using parse_bbox_ordered by blast
next
  fix a b c e
  assume "parse_bbox to_float (bboxEdit d) = Inr (a, b, c, e)"
  then show "\<not> float_ge b e" using parse_bbox_ordered by blast
qed

theorem bbox_order_checked_by_dialog_witness:
  "truthy (Some ''postpass_point'') \<and>
   (\<exists>q. build_simple_query fmt_table (Some ''postpass_point'')
      (Finite 1, Finite 1, Finite (-1), Finite (-1)) None None None False = Inr q) \<and>
   on_run_clicked fmt_table (stub_runtime (Inr ''{}'')) float_table
     \<lparr>endpointEdit = DEFAULT_POSTPASS_ENDPOINT, geomCombo = Some ''postpass_point'',
      bboxEdit = ''1,1,-1,-1'', tagKeyEdit = '''', tagValueEdit = ''''\<rparr> =
     (ErrorShown ''Bounding box min values must be less than max values.'', [])"
proof -
  let ?d = "\<lparr>endpointEdit = DEFAULT_POSTPASS_ENDPOINT, geomCombo = Some ''postpass_point'',
      bboxEdit = ''1,1,-1,-1'', tagKeyEdit = '''', tagValueEdit = ''''\<rparr>"
  have s: "strip ''1,1,-1,-1'' = ''1,1,-1,-1''" by (simp add: strip_def py_isspace_def)
  have p: "map strip (split_on CHR '','' ''1,1,-1,-1'') = [''1'', ''1'', ''-1'', ''-1'']"
    by (simp add: strip_def py_isspace_def)
  have m: "map float_table [''1'', ''1'', ''-1'', ''-1''] =
      [Some (Finite 1), Some (Finite 1), Some (Finite (-1)), Some (Finite (-1))]"
    by (simp add: float_table_def)
  have g: "float_ge (Finite 1) (Finite (-1))" by (simp add: float_ge_def)
  have t: "truthy (Some ''postpass_point'')" by simp
  show ?thesis
    using bbox_order_checked_by_dialog [of "Some ''postpass_point''" fmt_table
        "(Finite 1, Finite 1, Finite (-1), Finite (-1))" None None None False ?d float_table
        "stub_runtime (Inr ''{}'')"] s p m g t
    by simp
qed

end
